theory Spec2Isabelle
  imports Main
begin

section \<open>Data model\<close>

text \<open>
  The program keeps its data in pandas DataFrames. A DataFrame is a rectangular table:
  an ordered list of column labels and, for every row, one cell per column. A cell is a
  number, a string or a missing value (NaN / None). \<open>Num n\<close> stands for the number
  \<open>n\<close>, whether the frame stores it as an integer or, in a column that also holds
  missing values, as the float of the same value; the two compare equal as join keys.
  Numbers with a fractional part, booleans and dates are outside this model.
\<close>

datatype cell = Null | Num int | Str string

record table =
  columns :: "string list"
  rows :: "cell list list"

text \<open>
  Every DataFrame is rectangular, and the three loaders only build frames whose column
  labels are pairwise distinct. \<open>REQUIRED_COL\<close> is the class constant of
  \<open>DataManager\<close>.
\<close>

definition REQUIRED_COL :: string where
  "REQUIRED_COL = ''ID''"

definition rectangular :: "table \<Rightarrow> bool" where
  "rectangular t = list_all (\<lambda>r. length r = length (columns t)) (rows t)"

definition has_key :: "table \<Rightarrow> bool" where
  "has_key t = (REQUIRED_COL \<in> set (columns t))"



text \<open>
  The exceptions the program raises or lets through, named after the error kinds of the
  specification. Next to each constructor stands the Python exception it models.
\<close>

datatype error =
    NotFound string             \<comment> \<open>FileNotFoundError("File not found: <path>")\<close>
  | UnsupportedFormat string    \<comment> \<open>ValueError("Format '<ext>' not supported.")\<close>
  | EmptyOrUnreadable           \<comment> \<open>ValueError("File empty or unreadable.")\<close>
  | ReadError error             \<comment> \<open>ValueError("Error reading file: <cause>")\<close>
  | MissingKeyColumn            \<comment> \<open>KeyError("Column 'ID' not found.") of add_file\<close>
  | NoFilesToMerge              \<comment> \<open>ValueError("No files to merge.")\<close>
  | InvalidOutputFolder         \<comment> \<open>FileNotFoundError("Invalid output folder.")\<close>
  | EmptyDataError              \<comment> \<open>pandas.errors.EmptyDataError\<close>
  | ParserError                 \<comment> \<open>any other exception of a pandas reader\<close>
  | JoinKeyError                \<comment> \<open>KeyError('ID') raised inside DataFrame.merge\<close>
  | JoinValueError              \<comment> \<open>ValueError raised inside DataFrame.merge\<close>
  | JoinMergeError              \<comment> \<open>pandas.errors.MergeError raised inside DataFrame.merge\<close>
  | ToJsonTypeError             \<comment> \<open>TypeError: to_json() got an unexpected keyword argument 'encoding'\<close>

section \<open>The left join of \<open>DataFrame.merge(df, on="ID", how="left")\<close>\<close>

text \<open>
  \<open>merge\<close> first looks the key column up, in the right frame and then in the left one:
  a frame without the label raises \<open>KeyError\<close>, a frame that carries the label more than
  once raises \<open>ValueError\<close>. It then compares the kinds of the two key columns and raises
  \<open>ValueError\<close> when both frames have rows and one key column is numeric while the other
  is textual. Last, the labels are settled: a label that occurs in the left frame and
  among the right frame's columns without the key gets the suffix \<open>_x\<close> on the left and
  \<open>_y\<close> on the right, and \<open>MergeError\<close> is raised when this renaming repeats a label
  within one side that was not repeated there before, or makes a label equal to a label of
  the other side that kept its name.

  Otherwise the result has the left frame's columns followed by the right frame's columns
  without the key. The rows follow the left frame's order; a left row is paired with every
  right row of the same key, in the right frame's order, and with missing values when
  there is none. Missing keys match each other, as in pandas.
\<close>

definition key_index :: "string list \<Rightarrow> nat" where
  "key_index cols = length (takeWhile (\<lambda>c. c \<noteq> REQUIRED_COL) cols)"

definition drop_at :: "nat \<Rightarrow> 'a list \<Rightarrow> 'a list" where
  "drop_at k xs = take k xs @ drop (Suc k) xs"

text \<open>
  The kind of a key column. A column without any string is numeric (integers, or floats
  when values are missing); a column with strings and no number is textual (dtype object,
  inferred as string or mixed); a column that mixes strings and numbers is neither, and
  pandas lets it pass.
\<close>

fun is_str :: "cell \<Rightarrow> bool" where
  "is_str (Str s) = True"
| "is_str c = False"

fun is_num :: "cell \<Rightarrow> bool" where
  "is_num (Num n) = True"
| "is_num c = False"

definition key_column :: "table \<Rightarrow> cell list" where
  "key_column t = map (\<lambda>r. r ! key_index (columns t)) (rows t)"

definition numeric_keys :: "table \<Rightarrow> bool" where
  "numeric_keys t = (\<not> list_ex is_str (key_column t))"

definition textual_keys :: "table \<Rightarrow> bool" where
  "textual_keys t = (list_ex is_str (key_column t) \<and> \<not> list_ex is_num (key_column t))"

definition keys_clash :: "table \<Rightarrow> table \<Rightarrow> bool" where
  "keys_clash l r =
     (rows l \<noteq> [] \<and> rows r \<noteq> [] \<and>
      (numeric_keys l \<and> textual_keys r \<or> textual_keys l \<and> numeric_keys r))"

text \<open>The labels of the result, and the test for a label repeated by the renaming.\<close>

definition add_suffix :: "string \<Rightarrow> string list \<Rightarrow> string list \<Rightarrow> string list" where
  "add_suffix sfx overlap cols = map (\<lambda>c. if c \<in> set overlap then c @ sfx else c) cols"

definition overlap_labels :: "table \<Rightarrow> table \<Rightarrow> string list" where
  "overlap_labels l r =
     filter (\<lambda>c. c \<in> set (drop_at (key_index (columns r)) (columns r))) (columns l)"

definition left_labels :: "table \<Rightarrow> table \<Rightarrow> string list" where
  "left_labels l r = add_suffix ''_x'' (overlap_labels l r) (columns l)"

definition right_labels :: "table \<Rightarrow> table \<Rightarrow> string list" where
  "right_labels l r =
     add_suffix ''_y'' (overlap_labels l r) (drop_at (key_index (columns r)) (columns r))"

fun new_duplicate :: "string list \<Rightarrow> string list \<Rightarrow> string list \<Rightarrow> string list \<Rightarrow> bool" where
  "new_duplicate seen_old seen_new (old # olds) (new # news) =
     ((new \<in> set seen_new \<and> old \<notin> set seen_old)
      \<or> new_duplicate (old # seen_old) (new # seen_new) olds news)"
| "new_duplicate seen_old seen_new olds news = False"

definition suffix_clash :: "table \<Rightarrow> table \<Rightarrow> bool" where
  "suffix_clash l r =
     (let rcols = drop_at (key_index (columns r)) (columns r);
          overlap = overlap_labels l r
      in overlap \<noteq> [] \<and>
         (new_duplicate [] [] (columns l) (left_labels l r)
          \<or> new_duplicate [] [] rcols (right_labels l r)
          \<or> list_ex (\<lambda>c. c \<in> set rcols \<and> c \<notin> set overlap) (left_labels l r)
          \<or> list_ex (\<lambda>c. c \<in> set (columns l) \<and> c \<notin> set overlap) (right_labels l r)))"

text \<open>The rows of the result.\<close>

fun matches :: "nat \<Rightarrow> nat \<Rightarrow> cell list \<Rightarrow> cell list list \<Rightarrow> cell list list" where
  "matches lk rk a [] = []"
| "matches lk rk a (b # bs) =
     (if a ! lk = b ! rk then (a @ drop_at rk b) # matches lk rk a bs
      else matches lk rk a bs)"

fun join_rows :: "nat \<Rightarrow> nat \<Rightarrow> nat \<Rightarrow> cell list list \<Rightarrow> cell list list \<Rightarrow> cell list list" where
  "join_rows lk rk m [] bs = []"
| "join_rows lk rk m (a # as) bs =
     (case matches lk rk a bs of
        [] \<Rightarrow> (a @ replicate m Null) # join_rows lk rk m as bs
      | r # rs \<Rightarrow> (r # rs) @ join_rows lk rk m as bs)"

definition joined :: "table \<Rightarrow> table \<Rightarrow> table" where
  "joined l r =
     \<lparr>columns = left_labels l r @ right_labels l r,
      rows = join_rows (key_index (columns l)) (key_index (columns r))
               (length (columns r) - 1) (rows l) (rows r)\<rparr>"

definition left_join :: "table \<Rightarrow> table \<Rightarrow> error + table" where
  "left_join l r =
     (if REQUIRED_COL \<notin> set (columns r) then Inl JoinKeyError
      else if 1 < count_list (columns r) REQUIRED_COL then Inl JoinValueError
      else if REQUIRED_COL \<notin> set (columns l) then Inl JoinKeyError
      else if 1 < count_list (columns l) REQUIRED_COL then Inl JoinValueError
      else if keys_clash l r then Inl JoinValueError
      else if suffix_clash l r then Inl JoinMergeError
      else Inr (joined l r))"

section \<open>\<open>DataManager.merge_all\<close>\<close>

text \<open>
  The argument is the list \<open>self.dfs\<close>. The loop is
  \<open>for df in self.dfs[1:]: merged = merged.merge(df, ...)\<close>; an exception of \<open>merge\<close> leaves
  the loop. No frame is changed: \<open>merge\<close> builds a new one.
\<close>

fun merge_loop :: "table \<Rightarrow> table list \<Rightarrow> error + table" where
  "merge_loop merged [] = Inr merged"
| "merge_loop merged (df # rest) =
     (case left_join merged df of
        Inl e \<Rightarrow> Inl e
      | Inr m \<Rightarrow> merge_loop m rest)"

definition merge_all :: "table list \<Rightarrow> error + table" where
  "merge_all dfs =
     (case dfs of
        [] \<Rightarrow> Inl NoFilesToMerge
      | first # rest \<Rightarrow> merge_loop first rest)"


text \<open>Notions used to state the join's semantics.\<close>

definition key_of :: "table \<Rightarrow> cell list \<Rightarrow> cell" where
  "key_of t r = r ! key_index (columns t)"


definition other_columns :: "table \<Rightarrow> string list" where
  "other_columns t = drop_at (key_index (columns t)) (columns t)"


definition key_values :: "table \<Rightarrow> cell list" where
  "key_values t = map (key_of t) (rows t)"

text \<open>
  The pair of frames passes the validation that \<open>merge\<close> makes once the key label is found:
  neither frame carries the key label twice, the key columns are not one numeric and one
  textual, and the suffixes repeat no label.
\<close>

definition joinable :: "table \<Rightarrow> table \<Rightarrow> bool" where
  "joinable l r =
     (count_list (columns l) REQUIRED_COL \<le> 1 \<and> count_list (columns r) REQUIRED_COL \<le> 1 \<and>
      \<not> keys_clash l r \<and> \<not> suffix_clash l r)"



section \<open>Python strings and paths\<close>

text \<open>
  The string methods the program calls. Strings are ASCII here: \<open>strip\<close> removes the
  ASCII white space of Python's \<open>str.strip()\<close>, \<open>lower\<close> maps \<open>A\<close> to \<open>Z\<close>.
\<close>

definition is_space :: "char \<Rightarrow> bool" where
  "is_space c = (c \<in> set [CHR 0x09, CHR 0x0A, CHR 0x0B, CHR 0x0C, CHR 0x0D,
                          CHR 0x1C, CHR 0x1D, CHR 0x1E, CHR 0x1F, CHR 0x20])"

definition strip :: "string \<Rightarrow> string" where
  "strip s = rev (dropWhile is_space (rev (dropWhile is_space s)))"

definition lower_char :: "char \<Rightarrow> char" where
  "lower_char c =
     (case map_of (zip ''ABCDEFGHIJKLMNOPQRSTUVWXYZ'' ''abcdefghijklmnopqrstuvwxyz'') c of
        Some d \<Rightarrow> d
      | None \<Rightarrow> c)"

definition lower :: "string \<Rightarrow> string" where
  "lower s = map lower_char s"

text \<open>\<open>s.split(sep)\<close> for a one-character separator: \<open>"".split("|")\<close> is \<open>[""]\<close>.\<close>

fun split_on :: "char \<Rightarrow> string \<Rightarrow> string list" where
  "split_on sep [] = [[]]"
| "split_on sep (c # cs) =
     (if c = sep then [] # split_on sep cs
      else (case split_on sep cs of
              [] \<Rightarrow> [[c]]
            | w # ws \<Rightarrow> (c # w) # ws))"

definition startswith :: "string \<Rightarrow> string \<Rightarrow> bool" where
  "startswith s p = (take (length p) s = p)"

text \<open>
  \<open>s.replace(old, new)\<close>: every occurrence of \<open>old\<close>, from the left, without overlap.
  The program only calls it with the non-empty \<open>old = "SCRIPT_1_"\<close>.
\<close>

function str_replace :: "string \<Rightarrow> string \<Rightarrow> string \<Rightarrow> string" where
  "str_replace old new [] = []"
| "str_replace old new (c # cs) =
     (if old \<noteq> [] \<and> startswith (c # cs) old
      then new @ str_replace old new (drop (length old - 1) cs)
      else c # str_replace old new cs)"
  by pat_completeness auto
termination
  by (relation "measure (\<lambda>(old, new, s). length s)") auto

text \<open>
  \<open>os.path\<close>, in its POSIX form: \<open>basename\<close> is what follows the last slash; \<open>splitext\<close>
  splits at the last dot of the base name, unless only dots precede it; \<open>join\<close> puts one
  slash between directory and name.
\<close>

definition basename :: "string \<Rightarrow> string" where
  "basename p = rev (takeWhile (\<lambda>c. c \<noteq> CHR ''/'') (rev p))"

definition splitext_name :: "string \<Rightarrow> string \<times> string" where
  "splitext_name b =
     (let lead = takeWhile (\<lambda>c. c = CHR ''.'') b;
          rest = dropWhile (\<lambda>c. c = CHR ''.'') b;
          ext = rev (takeWhile (\<lambda>c. c \<noteq> CHR ''.'') (rev rest))
      in if CHR ''.'' \<in> set rest
         then (lead @ take (length rest - length ext - 1) rest, CHR ''.'' # ext)
         else (b, []))"

definition splitext :: "string \<Rightarrow> string \<times> string" where
  "splitext p =
     (let b = basename p; d = take (length p - length b) p
      in (d @ fst (splitext_name b), snd (splitext_name b)))"

definition path_join :: "string \<Rightarrow> string \<Rightarrow> string" where
  "path_join a b =
     (if startswith b ''/'' then b
      else if a = [] \<or> last a = CHR ''/'' then a @ b
      else a @ ''/'' @ b)"

section \<open>Files\<close>

text \<open>
  The file system as the program sees it: the regular files with their contents
  (\<open>os.path.isfile\<close>) and the directories (\<open>os.path.isdir\<close>).
\<close>

record file_system =
  files :: "string \<rightharpoonup> string"
  dirs :: "string set"

text \<open>
  The readers and the spreadsheet writer of pandas are parameters of the model: a reader
  maps a file's content (\<open>read_csv\<close>: the content and the column names passed as
  \<open>names=\<close>) to a frame or fails, the writer renders a frame.
\<close>

record pandas_io =
  read_excel :: "string \<Rightarrow> error + table"
  read_json :: "string \<Rightarrow> error + table"
  read_csv :: "string \<Rightarrow> string list \<Rightarrow> error + table"
  to_excel :: "table \<Rightarrow> string"

subsection \<open>Reading the text format\<close>

text \<open>
  \<open>f.readline()\<close> on a freshly opened text file: the first line. In text mode a line ends
  at a line feed, at a carriage return or at the pair of them, and the line end is handed
  over as one line feed.
\<close>

definition readline :: "string \<Rightarrow> string" where
  "readline s =
     (let l = takeWhile (\<lambda>c. c \<noteq> CHR 0x0A \<and> c \<noteq> CHR 0x0D) s
      in if length l < length s then l @ [CHR 0x0A] else l)"

text \<open>
  The branch for \<open>.txt\<close>: the header is the stripped first line, the column names are its
  parts between the \<open>|\<close>, each stripped, and
  \<open>pd.read_csv(path, sep="|", skiprows=[0], names=cols)\<close> reads the file with them.
\<close>

definition read_txt :: "pandas_io \<Rightarrow> string \<Rightarrow> error + table" where
  "read_txt io content =
     (let header = strip (readline content);
          cols = map strip (split_on (CHR ''|'') header)
      in read_csv io content cols)"

subsection \<open>\<open>DataManager.read\<close>\<close>

text \<open>
  The body of the \<open>try\<close> statement, and the function with its two handlers:
  \<open>EmptyDataError\<close> becomes "File empty or unreadable.", every other exception raised in
  the body becomes "Error reading file: ...".
\<close>

definition read_body :: "pandas_io \<Rightarrow> string \<Rightarrow> string \<Rightarrow> error + table" where
  "read_body io ext content =
     (if ext = ''.xlsx'' then read_excel io content
      else if ext = ''.json'' then read_json io content
      else if ext = ''.txt'' then read_txt io content
      else Inl (UnsupportedFormat ext))"

definition read :: "pandas_io \<Rightarrow> file_system \<Rightarrow> string \<Rightarrow> error + table" where
  "read io fs path =
     (case files fs path of
        None \<Rightarrow> Inl (NotFound path)
      | Some content \<Rightarrow>
          (case read_body io (lower (snd (splitext path))) content of
             Inr df \<Rightarrow> Inr df
           | Inl e \<Rightarrow> (if e = EmptyDataError then Inl EmptyOrUnreadable else Inl (ReadError e))))"

section \<open>The registry: \<open>DataManager\<close>\<close>

record data_manager =
  dfs :: "table list"
  paths :: "string list"
  team_name :: string

definition init :: data_manager where
  "init = \<lparr>dfs = [], paths = [], team_name = []\<rparr>"

definition extract_team_name :: "string \<Rightarrow> string" where
  "extract_team_name path =
     (let base = basename path
      in if startswith base ''SCRIPT_1_''
         then hd (split_on (CHR ''.'') (str_replace ''SCRIPT_1_'' [] base))
         else fst (splitext base))"

text \<open>
  \<open>add_file\<close> returns the exception it raised, if any, and the registry afterwards.
\<close>

definition add_file ::
  "pandas_io \<Rightarrow> file_system \<Rightarrow> data_manager \<Rightarrow> string \<Rightarrow> error option \<times> data_manager" where
  "add_file io fs dm path =
     (case read io fs path of
        Inl e \<Rightarrow> (Some e, dm)
      | Inr df \<Rightarrow>
          if REQUIRED_COL \<notin> set (columns df) then (Some MissingKeyColumn, dm)
          else (None, dm\<lparr>dfs := dfs dm @ [df],
                         paths := paths dm @ [path],
                         team_name := (if team_name dm = [] then extract_team_name path
                                       else team_name dm)\<rparr>))"

text \<open>The part of \<open>MergerGUI.reset_all\<close> that touches the registry.\<close>

definition reset_all :: "data_manager \<Rightarrow> data_manager" where
  "reset_all dm = dm\<lparr>dfs := [], paths := [], team_name := []\<rparr>"

text \<open>
  \<open>save\<close> returns the exception it raised and the file system afterwards. \<open>date_str\<close> is
  \<open>datetime.now().strftime("%Y%m%d")\<close>. After the folder test and the merge, \<open>to_excel\<close>
  writes the spreadsheet (taken to succeed). The next statement,
  \<open>merged.to_json(..., encoding='utf-8')\<close>, passes a keyword that \<open>DataFrame.to_json\<close> does
  not have: the call raises \<open>TypeError\<close> before anything is written, and the statements
  after it, which would write the text file, are never reached. So \<open>save\<close> has no branch
  that returns normally.
\<close>

definition save ::
  "pandas_io \<Rightarrow> file_system \<Rightarrow> data_manager \<Rightarrow> string \<Rightarrow> string \<Rightarrow> error option \<times> file_system" where
  "save io fs dm folder date_str =
     (if folder \<notin> dirs fs then (Some InvalidOutputFolder, fs)
      else
        (case merge_all (dfs dm) of
           Inl e \<Rightarrow> (Some e, fs)
         | Inr merged \<Rightarrow>
             let base = path_join folder (''Data_'' @ team_name dm @ ''_'' @ date_str)
             in (Some ToJsonTypeError,
                 fs\<lparr>files := (files fs)(base @ ''.xlsx'' \<mapsto> to_excel io merged)\<rparr>)))"

text \<open>The operations a session applies to the registry, and a run of them.\<close>

datatype operation = AddFile string | ResetAll

fun apply_operation :: "pandas_io \<Rightarrow> file_system \<Rightarrow> data_manager \<Rightarrow> operation \<Rightarrow> data_manager" where
  "apply_operation io fs dm (AddFile path) = snd (add_file io fs dm path)"
| "apply_operation io fs dm ResetAll = reset_all dm"

definition run :: "pandas_io \<Rightarrow> file_system \<Rightarrow> data_manager \<Rightarrow> operation list \<Rightarrow> data_manager" where
  "run io fs dm ops = foldl (apply_operation io fs) dm ops"

text \<open>Notions used to state the registry's properties.\<close>

text \<open>A path that \<open>add_file\<close> accepts: the file loads and the table has the ID column.\<close>

definition accepted :: "pandas_io \<Rightarrow> file_system \<Rightarrow> string \<Rightarrow> bool" where
  "accepted io fs path = (case read io fs path of Inl e \<Rightarrow> False | Inr df \<Rightarrow> has_key df)"

text \<open>\<open>tok in s\<close>: the token occurs somewhere in the string.\<close>

fun occurs :: "string \<Rightarrow> string \<Rightarrow> bool" where
  "occurs tok [] = (tok = [])"
| "occurs tok (c # cs) = (startswith (c # cs) tok \<or> occurs tok cs)"


section \<open>Properties of the merge\<close>

subsection \<open>The join, row by row\<close>

lemma matches_filter:
  "matches lk rk a bs = map (\<lambda>b. a @ drop_at rk b) (filter (\<lambda>b. b ! rk = a ! lk) bs)"
  by (induction bs) auto


lemma key_index_less: "REQUIRED_COL \<in> set cols \<Longrightarrow> key_index cols < length cols"
  unfolding key_index_def by (induction cols) auto

lemma length_drop_at: "k < length xs \<Longrightarrow> length (drop_at k xs) = length xs - 1"
  by (auto simp: drop_at_def)







lemma length_add_suffix: "length (add_suffix sfx ov cols) = length cols"
  by (simp add: add_suffix_def)

lemma add_suffix_no_overlap: "set ov \<inter> set cols = {} \<Longrightarrow> add_suffix sfx ov cols = cols"
  unfolding add_suffix_def by (induction cols) auto


lemma left_join_Inr:
  assumes "has_key A" "has_key B" "joinable A B"
  shows "left_join A B = Inr (joined A B)"
  using assms by (simp add: left_join_def has_key_def joinable_def)

lemma left_join_Inr_D:
  assumes "left_join A B = Inr R"
  shows "has_key A \<and> has_key B \<and> joinable A B"
  using assms by (simp add: left_join_def has_key_def joinable_def split: if_splits)

lemma left_join_Inl_D:
  assumes "left_join A B = Inl e"
  shows "e \<in> {JoinKeyError, JoinValueError, JoinMergeError}"
  using assms by (auto simp: left_join_def split: if_splits)

lemma left_join_missing_key:
  assumes "\<not> has_key A \<or> \<not> has_key B"
  shows "\<exists>e. left_join A B = Inl e \<and> e \<in> {JoinKeyError, JoinValueError, JoinMergeError}"
  using assms by (auto simp: left_join_def has_key_def)











lemma join_rows_disjoint:
  "\<forall>a\<in>set as. \<forall>b\<in>set bs. b ! rk \<noteq> a ! lk \<Longrightarrow>
   join_rows lk rk m as bs = map (\<lambda>a. a @ replicate m Null) as"
  by (induction as) (auto simp: matches_filter filter_empty_conv split: list.splits)


lemma merge_loop_missing_key:
  "\<exists>t\<in>set ts. \<not> has_key t \<Longrightarrow>
   \<exists>e. merge_loop acc ts = Inl e \<and> e \<in> {JoinKeyError, JoinValueError, JoinMergeError}"
proof (induction ts arbitrary: acc)
  case Nil
  then show ?case by simp
next
  case (Cons d ds)
  show ?case
  proof (cases "left_join acc d")
    case (Inl e)
    with left_join_Inl_D [OF Inl] show ?thesis by simp
  next
    case (Inr m)
    then have "has_key d"
      using left_join_Inr_D by blast
    with Cons.prems have "\<exists>t\<in>set ds. \<not> has_key t" by auto
    from Cons.IH [OF this] Inr show ?thesis by simp
  qed
qed

lemma merge_loop_Inl_D:
  "merge_loop acc ts = Inl e \<Longrightarrow> e \<in> {JoinKeyError, JoinValueError, JoinMergeError}"
proof (induction ts arbitrary: acc)
  case Nil
  then show ?case by simp
next
  case (Cons d ds)
  show ?case
  proof (cases "left_join acc d")
    case (Inl e')
    with Cons.prems have "e' = e" by simp
    with left_join_Inl_D [OF Inl] show ?thesis by simp
  next
    case (Inr m)
    with Cons.prems have "merge_loop m ds = Inl e" by simp
    then show ?thesis by (rule Cons.IH)
  qed
qed

subsection \<open>The claims about \<open>merge_all\<close>\<close>




text \<open>
  C2. Merging the single-element list \<open>[T]\<close> returns \<open>T\<close> unchanged: the loop body never
  runs. This holds for every table, with or without an ID column.
\<close>

theorem merge_all_single: "merge_all [T] = Inr T"
  by (simp add: merge_all_def)

text \<open>
  C4 (as the code has it). \<open>merge_all\<close> makes no check of its own for the ID column and
  never fails with \<open>MissingKeyColumn\<close>; that check is made by \<open>add_file\<close>. Invoked directly
  on a list of two or more tables of which one lacks the ID column, it fails with an error
  raised by the join itself (its \<open>KeyError\<close>, or the \<open>ValueError\<close> or \<open>MergeError\<close> of its
  validation). A single table is returned as it is, whether or not it has the ID column.
\<close>

theorem merge_all_missing_key:
  "(2 \<le> length ts \<and> (\<exists>t\<in>set ts. \<not> has_key t) \<longrightarrow>
      (\<exists>e. merge_all ts = Inl e \<and> e \<in> {JoinKeyError, JoinValueError, JoinMergeError})) \<and>
   merge_all us \<noteq> Inl MissingKeyColumn \<and>
   merge_all [T] = Inr T"
proof (intro conjI impI)
  assume a: "2 \<le> length ts \<and> (\<exists>t\<in>set ts. \<not> has_key t)"
  then obtain t0 t1 rest where ts: "ts = t0 # t1 # rest"
    by (cases ts; cases "tl ts") auto
  show "\<exists>e. merge_all ts = Inl e \<and> e \<in> {JoinKeyError, JoinValueError, JoinMergeError}"
  proof (cases "has_key t0")
    case True
    with a ts have "\<exists>t\<in>set (t1 # rest). \<not> has_key t" by auto
    from merge_loop_missing_key [OF this] show ?thesis
      by (simp add: merge_all_def ts)
  next
    case False
    then obtain e where "left_join t0 t1 = Inl e"
      and "e \<in> {JoinKeyError, JoinValueError, JoinMergeError}"
      using left_join_missing_key [of t0 t1] by blast
    then show ?thesis
      by (simp add: merge_all_def ts)
  qed
next
  show "merge_all us \<noteq> Inl MissingKeyColumn"
  proof (cases us)
    case Nil
    then show ?thesis by (simp add: merge_all_def)
  next
    case (Cons u rest)
    show ?thesis
    proof
      assume "merge_all us = Inl MissingKeyColumn"
      then have "merge_loop u rest = Inl MissingKeyColumn"
        by (simp add: merge_all_def Cons)
      then show False
        using merge_loop_Inl_D by fastforce
    qed
  qed
next
  show "merge_all [T] = Inr T"
    by (simp add: merge_all_def)
qed

theorem merge_all_missing_key_witness:
  "\<not> has_key \<lparr>columns = [''Name''], rows = [[Str ''X'']]\<rparr> \<and>
   (\<exists>e. merge_all [\<lparr>columns = [''ID'', ''Name''], rows = [[Num 1, Str ''X'']]\<rparr>,
                    \<lparr>columns = [''Name''], rows = [[Str ''X'']]\<rparr>] = Inl e \<and>
        e \<in> {JoinKeyError, JoinValueError, JoinMergeError}) \<and>
   merge_all [\<lparr>columns = [''ID'', ''Name''], rows = [[Num 1, Str ''X'']]\<rparr>,
              \<lparr>columns = [''Name''], rows = [[Str ''X'']]\<rparr>] = Inl JoinKeyError"
proof -
  let ?A = "\<lparr>columns = [''ID'', ''Name''], rows = [[Num 1, Str ''X'']]\<rparr>"
  let ?B = "\<lparr>columns = [''Name''], rows = [[Str ''X'']]\<rparr>"
  have n: "\<not> has_key ?B"
    by (simp add: has_key_def REQUIRED_COL_def)
  then have h: "2 \<le> length [?A, ?B] \<and> (\<exists>t\<in>set [?A, ?B]. \<not> has_key t)"
    by simp
  have e: "merge_all [?A, ?B] = Inl JoinKeyError"
    by code_simp
  from merge_all_missing_key [of "[?A, ?B]"] h
  have "\<exists>e. merge_all [?A, ?B] = Inl e \<and> e \<in> {JoinKeyError, JoinValueError, JoinMergeError}"
    by blast
  with n e show ?thesis by blast
qed

theorem merge_all_missing_key_counterexample:
  "\<not> has_key \<lparr>columns = [''Name''], rows = [[Str ''X'']]\<rparr> \<and>
   merge_all [\<lparr>columns = [''Name''], rows = [[Str ''X'']]\<rparr>]
     = Inr \<lparr>columns = [''Name''], rows = [[Str ''X'']]\<rparr> \<and>
   merge_all [\<lparr>columns = [''Name''], rows = [[Str ''X'']]\<rparr>] \<noteq> Inl MissingKeyColumn"
  by (simp add: has_key_def REQUIRED_COL_def merge_all_def)

text \<open>
  C8 (as the code has it). Let \<open>A\<close> and \<open>B\<close> have the ID column, let no ID value of \<open>A\<close> be
  an ID value of \<open>B\<close>, and let the library accept the pair (an integer ID column against
  a string ID column is refused, as is a label repeated by the suffixes). Then the left
  join of \<open>A\<close> with \<open>B\<close> has as many rows as \<open>A\<close>, the rows are those of \<open>A\<close> in their
  order on \<open>A\<close>'s columns, and every column that comes from \<open>B\<close> (the positions after
  \<open>A\<close>'s columns) is null on every row.
\<close>

theorem left_join_disjoint_ids:
  assumes "has_key A" and "has_key B" and "rectangular A" and "joinable A B"
    and "set (key_values A) \<inter> set (key_values B) = {}"
  shows "\<exists>R. left_join A B = Inr R \<and>
           length (rows R) = length (rows A) \<and>
           length (columns R) = length (columns A) + length (other_columns B) \<and>
           map (take (length (columns A))) (rows R) = rows A \<and>
           (\<forall>r\<in>set (rows R). \<forall>j. length (columns A) \<le> j \<and> j < length (columns R)
                                   \<longrightarrow> r ! j = Null)"
proof -
  let ?lk = "key_index (columns A)"
  let ?rk = "key_index (columns B)"
  let ?m = "length (columns B) - 1"
  define R where "R = \<lparr>columns = left_labels A B @ right_labels A B,
                        rows = join_rows ?lk ?rk ?m (rows A) (rows B)\<rparr>"
  have J: "left_join A B = Inr R"
    unfolding R_def using left_join_Inr [OF assms(1,2,4)] by (simp add: joined_def)
  have m: "length (other_columns B) = ?m"
    using key_index_less [of "columns B"] assms(2)
    by (simp add: other_columns_def length_drop_at has_key_def)
  have "\<forall>a\<in>set (rows A). \<forall>b\<in>set (rows B). b ! ?rk \<noteq> a ! ?lk"
    using assms(5) by (fastforce simp: key_values_def key_of_def)
  then have rowsR: "rows R = map (\<lambda>a. a @ replicate ?m Null) (rows A)"
    by (simp add: R_def join_rows_disjoint)
  have len: "\<forall>a\<in>set (rows A). length a = length (columns A)"
    using assms(3) by (simp add: rectangular_def list_all_iff)
  have c1: "length (rows R) = length (rows A)"
    by (simp add: rowsR)
  have c2: "length (columns R) = length (columns A) + length (other_columns B)"
    by (simp add: R_def left_labels_def right_labels_def length_add_suffix other_columns_def)
  have c3: "map (take (length (columns A))) (rows R) = rows A"
    using len by (simp add: rowsR o_def map_idI)
  have c4: "\<forall>r\<in>set (rows R). \<forall>j. length (columns A) \<le> j \<and> j < length (columns R)
                                   \<longrightarrow> r ! j = Null"
    using len by (auto simp: rowsR c2 m nth_append)
  from J c1 c2 c3 c4 show ?thesis by blast
qed

theorem left_join_disjoint_ids_witness:
  "set (key_values \<lparr>columns = [''ID'', ''Name''], rows = [[Num 1, Str ''X''], [Num 2, Str ''Y'']]\<rparr>)
     \<inter> set (key_values \<lparr>columns = [''ID'', ''Rating''], rows = [[Num 3, Num 70]]\<rparr>) = {} \<and>
   joinable \<lparr>columns = [''ID'', ''Name''], rows = [[Num 1, Str ''X''], [Num 2, Str ''Y'']]\<rparr>
            \<lparr>columns = [''ID'', ''Rating''], rows = [[Num 3, Num 70]]\<rparr> \<and>
   left_join \<lparr>columns = [''ID'', ''Name''], rows = [[Num 1, Str ''X''], [Num 2, Str ''Y'']]\<rparr>
             \<lparr>columns = [''ID'', ''Rating''], rows = [[Num 3, Num 70]]\<rparr>
     = Inr \<lparr>columns = [''ID'', ''Name'', ''Rating''],
            rows = [[Num 1, Str ''X'', Null], [Num 2, Str ''Y'', Null]]\<rparr> \<and>
   (\<exists>R. left_join \<lparr>columns = [''ID'', ''Name''], rows = [[Num 1, Str ''X''], [Num 2, Str ''Y'']]\<rparr>
             \<lparr>columns = [''ID'', ''Rating''], rows = [[Num 3, Num 70]]\<rparr> = Inr R \<and>
        length (rows R) = 2)"
proof -
  let ?A = "\<lparr>columns = [''ID'', ''Name''], rows = [[Num 1, Str ''X''], [Num 2, Str ''Y'']]\<rparr>"
  let ?B = "\<lparr>columns = [''ID'', ''Rating''], rows = [[Num 3, Num 70]]\<rparr>"
  have hA: "has_key ?A" and hB: "has_key ?B" and rA: "rectangular ?A"
    by (simp_all add: has_key_def rectangular_def REQUIRED_COL_def)
  have j: "joinable ?A ?B"
    by code_simp
  have d: "set (key_values ?A) \<inter> set (key_values ?B) = {}"
    by (simp add: key_values_def key_of_def key_index_def REQUIRED_COL_def)
  have e: "left_join ?A ?B = Inr \<lparr>columns = [''ID'', ''Name'', ''Rating''],
            rows = [[Num 1, Str ''X'', Null], [Num 2, Str ''Y'', Null]]\<rparr>"
    by code_simp
  from left_join_disjoint_ids [OF hA hB rA j d]
  have "\<exists>R. left_join ?A ?B = Inr R \<and> length (rows R) = 2"
    by auto
  with d j e show ?thesis by blast
qed

theorem left_join_disjoint_ids_counterexample:
  "has_key \<lparr>columns = [''ID'', ''Name''], rows = [[Num 1, Str ''X'']]\<rparr> \<and>
   has_key \<lparr>columns = [''ID'', ''Rating''], rows = [[Str ''a'', Num 88]]\<rparr> \<and>
   set (key_values \<lparr>columns = [''ID'', ''Name''], rows = [[Num 1, Str ''X'']]\<rparr>)
     \<inter> set (key_values \<lparr>columns = [''ID'', ''Rating''], rows = [[Str ''a'', Num 88]]\<rparr>) = {} \<and>
   left_join \<lparr>columns = [''ID'', ''Name''], rows = [[Num 1, Str ''X'']]\<rparr>
             \<lparr>columns = [''ID'', ''Rating''], rows = [[Str ''a'', Num 88]]\<rparr> = Inl JoinValueError"
proof (intro conjI)
  let ?A = "\<lparr>columns = [''ID'', ''Name''], rows = [[Num 1, Str ''X'']]\<rparr>"
  let ?B = "\<lparr>columns = [''ID'', ''Rating''], rows = [[Str ''a'', Num 88]]\<rparr>"
  show "has_key ?A" and "has_key ?B"
    by (simp_all add: has_key_def REQUIRED_COL_def)
  show "set (key_values ?A) \<inter> set (key_values ?B) = {}"
    by (simp add: key_values_def key_of_def key_index_def REQUIRED_COL_def)
  show "left_join ?A ?B = Inl JoinValueError"
    by code_simp
qed

section \<open>Properties of the loader, the registry and the writer\<close>

lemma add_file_cases:
  "add_file io fs dm path =
     (case read io fs path of
        Inl e \<Rightarrow> (Some e, dm)
      | Inr df \<Rightarrow>
          if has_key df
          then (None, \<lparr>dfs = dfs dm @ [df], paths = paths dm @ [path],
                       team_name = (if team_name dm = [] then extract_team_name path
                                    else team_name dm)\<rparr>)
          else (Some MissingKeyColumn, dm))"
  by (simp add: add_file_def has_key_def split: sum.splits)

lemma add_file_failure_keeps: "fst (add_file io fs dm path) \<noteq> None \<Longrightarrow> snd (add_file io fs dm path) = dm"
  by (auto simp: add_file_cases split: sum.splits if_splits)

lemma add_file_lengths:
  "length (dfs dm) = length (paths dm) \<Longrightarrow>
   length (dfs (snd (add_file io fs dm path))) = length (paths (snd (add_file io fs dm path)))"
  by (auto simp: add_file_cases split: sum.splits)

lemma apply_operation_lengths:
  "length (dfs dm) = length (paths dm) \<Longrightarrow>
   length (dfs (apply_operation io fs dm op)) = length (paths (apply_operation io fs dm op))"
  by (cases op) (simp_all add: add_file_lengths reset_all_def)

lemma run_lengths:
  "length (dfs dm) = length (paths dm) \<Longrightarrow>
   length (dfs (run io fs dm ops)) = length (paths (run io fs dm ops))"
  unfolding run_def
  by (induction ops arbitrary: dm) (simp_all add: apply_operation_lengths)

text \<open>
  C6. When the file loads but the table has no ID column, \<open>add_file\<close> fails with
  \<open>MissingKeyColumn\<close> and the registry (tables, paths and team name) is what it was.
\<close>

theorem add_file_missing_key:
  assumes "read io fs path = Inr df" and "\<not> has_key df"
  shows "add_file io fs dm path = (Some MissingKeyColumn, dm)"
  using assms by (simp add: add_file_cases)

theorem add_file_missing_key_witness:
  "read \<lparr>read_excel = (\<lambda>c. Inl ParserError), read_json = (\<lambda>c. Inl ParserError),
          read_csv = (\<lambda>c names. Inr \<lparr>columns = names, rows = [[Str ''X'']]\<rparr>),
          to_excel = (\<lambda>t. [])\<rparr>
        \<lparr>files = [''/d/a.txt'' \<mapsto> ''Name\<newline>X\<newline>''], dirs = {}\<rparr> ''/d/a.txt''
     = Inr \<lparr>columns = [''Name''], rows = [[Str ''X'']]\<rparr> \<and>
   \<not> has_key \<lparr>columns = [''Name''], rows = [[Str ''X'']]\<rparr> \<and>
   add_file \<lparr>read_excel = (\<lambda>c. Inl ParserError), read_json = (\<lambda>c. Inl ParserError),
          read_csv = (\<lambda>c names. Inr \<lparr>columns = names, rows = [[Str ''X'']]\<rparr>),
          to_excel = (\<lambda>t. [])\<rparr>
        \<lparr>files = [''/d/a.txt'' \<mapsto> ''Name\<newline>X\<newline>''], dirs = {}\<rparr>
        \<lparr>dfs = [\<lparr>columns = [''ID''], rows = [[Num 1]]\<rparr>], paths = [''/d/SCRIPT_1_A.json''],
         team_name = ''A''\<rparr> ''/d/a.txt''
     = (Some MissingKeyColumn,
        \<lparr>dfs = [\<lparr>columns = [''ID''], rows = [[Num 1]]\<rparr>], paths = [''/d/SCRIPT_1_A.json''],
         team_name = ''A''\<rparr>)"
proof -
  let ?io = "\<lparr>read_excel = (\<lambda>c. Inl ParserError), read_json = (\<lambda>c. Inl ParserError),
          read_csv = (\<lambda>c names. Inr \<lparr>columns = names, rows = [[Str ''X'']]\<rparr>),
          to_excel = (\<lambda>t. [])\<rparr>"
  let ?fs = "\<lparr>files = [''/d/a.txt'' \<mapsto> ''Name\<newline>X\<newline>''], dirs = {}\<rparr>"
  let ?df = "\<lparr>columns = [''Name''], rows = [[Str ''X'']]\<rparr>"
  have r: "read ?io ?fs ''/d/a.txt'' = Inr ?df"
    by code_simp
  have n: "\<not> has_key ?df"
    by (simp add: has_key_def REQUIRED_COL_def)
  from add_file_missing_key [OF r n] r n show ?thesis
    by blast
qed

text \<open>
  C7. When the folder is not a directory (it does not exist, or it is a file), \<open>save\<close>
  fails with \<open>InvalidOutputFolder\<close> and the file system is what it was: none of the three
  files is written.
\<close>

theorem save_invalid_folder:
  assumes "folder \<notin> dirs fs"
  shows "save io fs dm folder date_str = (Some InvalidOutputFolder, fs)"
  using assms by (simp add: save_def)

theorem save_invalid_folder_witness:
  "''/out'' \<notin> dirs \<lparr>files = [''/out'' \<mapsto> ''x''], dirs = {''/d''}\<rparr> \<and>
   save \<lparr>read_excel = (\<lambda>c. Inl ParserError), read_json = (\<lambda>c. Inl ParserError),
          read_csv = (\<lambda>c names. Inr \<lparr>columns = names, rows = [[Str ''X'']]\<rparr>),
          to_excel = (\<lambda>t. [])\<rparr>
        \<lparr>files = [''/out'' \<mapsto> ''x''], dirs = {''/d''}\<rparr>
        \<lparr>dfs = [\<lparr>columns = [''ID''], rows = [[Num 1]]\<rparr>], paths = [''/d/SCRIPT_1_A.json''],
         team_name = ''A''\<rparr> ''/out'' ''20250101''
     = (Some InvalidOutputFolder, \<lparr>files = [''/out'' \<mapsto> ''x''], dirs = {''/d''}\<rparr>)"
proof -
  let ?fs = "\<lparr>files = [''/out'' \<mapsto> ''x''], dirs = {''/d''}\<rparr>"
  have n: "''/out'' \<notin> dirs ?fs"
    by simp
  from save_invalid_folder [OF n] n show ?thesis
    by blast
qed

text \<open>
  C10. The list of tables and the list of paths keep the same length: a successful
  \<open>add_file\<close> appends one element to each, a failed one leaves the registry as it was,
  \<open>reset_all\<close> empties both, and so the lengths agree after every run of operations that
  starts from a registry where they agree, the initial one in particular.
\<close>

theorem registry_lists_same_length:
  "(fst (add_file io fs dm path) = None \<longrightarrow>
      (\<exists>df. dfs (snd (add_file io fs dm path)) = dfs dm @ [df]) \<and>
      paths (snd (add_file io fs dm path)) = paths dm @ [path]) \<and>
   (fst (add_file io fs dm path) \<noteq> None \<longrightarrow> snd (add_file io fs dm path) = dm) \<and>
   dfs (reset_all dm) = [] \<and> paths (reset_all dm) = [] \<and>
   (length (dfs dm) = length (paths dm) \<longrightarrow>
      length (dfs (run io fs dm ops)) = length (paths (run io fs dm ops))) \<and>
   length (dfs (run io fs init ops)) = length (paths (run io fs init ops))"
proof (intro conjI impI)
  assume "fst (add_file io fs dm path) = None"
  then show "\<exists>df. dfs (snd (add_file io fs dm path)) = dfs dm @ [df]"
    and "paths (snd (add_file io fs dm path)) = paths dm @ [path]"
    by (auto simp: add_file_cases split: sum.splits if_splits)
next
  assume "fst (add_file io fs dm path) \<noteq> None"
  then show "snd (add_file io fs dm path) = dm"
    by (rule add_file_failure_keeps)
next
  show "dfs (reset_all dm) = []" and "paths (reset_all dm) = []"
    by (simp_all add: reset_all_def)
next
  assume "length (dfs dm) = length (paths dm)"
  then show "length (dfs (run io fs dm ops)) = length (paths (run io fs dm ops))"
    by (rule run_lengths)
next
  show "length (dfs (run io fs init ops)) = length (paths (run io fs init ops))"
    by (rule run_lengths) (simp add: init_def)
qed

theorem registry_lists_same_length_witness:
  "fst (add_file \<lparr>read_excel = (\<lambda>c. Inl ParserError), read_json = (\<lambda>c. Inl ParserError),
                  read_csv = (\<lambda>c names. Inr \<lparr>columns = names, rows = [[Num 1, Str '' X'']]\<rparr>),
                  to_excel = (\<lambda>t. [])\<rparr>
          \<lparr>files = [''/d/a.txt'' \<mapsto> ''ID | Name\<newline>1 | X\<newline>''], dirs = {}\<rparr>
          init ''/d/a.txt'') = None \<and>
   paths (snd (add_file \<lparr>read_excel = (\<lambda>c. Inl ParserError), read_json = (\<lambda>c. Inl ParserError),
                  read_csv = (\<lambda>c names. Inr \<lparr>columns = names, rows = [[Num 1, Str '' X'']]\<rparr>),
                  to_excel = (\<lambda>t. [])\<rparr>
          \<lparr>files = [''/d/a.txt'' \<mapsto> ''ID | Name\<newline>1 | X\<newline>''], dirs = {}\<rparr>
          init ''/d/a.txt'')) = [''/d/a.txt''] \<and>
   fst (add_file \<lparr>read_excel = (\<lambda>c. Inl ParserError), read_json = (\<lambda>c. Inl ParserError),
                  read_csv = (\<lambda>c names. Inr \<lparr>columns = names, rows = [[Num 1, Str '' X'']]\<rparr>),
                  to_excel = (\<lambda>t. [])\<rparr>
          \<lparr>files = [''/d/a.txt'' \<mapsto> ''ID | Name\<newline>1 | X\<newline>''], dirs = {}\<rparr>
          init ''/d/b.txt'') \<noteq> None \<and>
   snd (add_file \<lparr>read_excel = (\<lambda>c. Inl ParserError), read_json = (\<lambda>c. Inl ParserError),
                  read_csv = (\<lambda>c names. Inr \<lparr>columns = names, rows = [[Num 1, Str '' X'']]\<rparr>),
                  to_excel = (\<lambda>t. [])\<rparr>
          \<lparr>files = [''/d/a.txt'' \<mapsto> ''ID | Name\<newline>1 | X\<newline>''], dirs = {}\<rparr>
          init ''/d/b.txt'') = init \<and>
   length (dfs (run \<lparr>read_excel = (\<lambda>c. Inl ParserError), read_json = (\<lambda>c. Inl ParserError),
                  read_csv = (\<lambda>c names. Inr \<lparr>columns = names, rows = [[Num 1, Str '' X'']]\<rparr>),
                  to_excel = (\<lambda>t. [])\<rparr>
          \<lparr>files = [''/d/a.txt'' \<mapsto> ''ID | Name\<newline>1 | X\<newline>''], dirs = {}\<rparr>
          init [AddFile ''/d/a.txt'', AddFile ''/d/b.txt'', ResetAll, AddFile ''/d/a.txt'']))
   = length (paths (run \<lparr>read_excel = (\<lambda>c. Inl ParserError), read_json = (\<lambda>c. Inl ParserError),
                  read_csv = (\<lambda>c names. Inr \<lparr>columns = names, rows = [[Num 1, Str '' X'']]\<rparr>),
                  to_excel = (\<lambda>t. [])\<rparr>
          \<lparr>files = [''/d/a.txt'' \<mapsto> ''ID | Name\<newline>1 | X\<newline>''], dirs = {}\<rparr>
          init [AddFile ''/d/a.txt'', AddFile ''/d/b.txt'', ResetAll, AddFile ''/d/a.txt'']))"
proof -
  let ?io = "\<lparr>read_excel = (\<lambda>c. Inl ParserError), read_json = (\<lambda>c. Inl ParserError),
                  read_csv = (\<lambda>c names. Inr \<lparr>columns = names, rows = [[Num 1, Str '' X'']]\<rparr>),
                  to_excel = (\<lambda>t. [])\<rparr>"
  let ?fs = "\<lparr>files = [''/d/a.txt'' \<mapsto> ''ID | Name\<newline>1 | X\<newline>''], dirs = {}\<rparr>"
  have a: "fst (add_file ?io ?fs init ''/d/a.txt'') = None"
    by code_simp
  have b: "fst (add_file ?io ?fs init ''/d/b.txt'') \<noteq> None"
    by code_simp
  note t = registry_lists_same_length [of ?io ?fs init]
  from t [of "''/d/a.txt''"] a
  have p: "paths (snd (add_file ?io ?fs init ''/d/a.txt'')) = [''/d/a.txt'']"
    by (simp add: init_def)
  from t [of "''/d/b.txt''"] b
  have q: "snd (add_file ?io ?fs init ''/d/b.txt'') = init"
    by blast
  from t [of "''/d/a.txt''" "[AddFile ''/d/a.txt'', AddFile ''/d/b.txt'', ResetAll, AddFile ''/d/a.txt'']"]
  have r: "length (dfs (run ?io ?fs init [AddFile ''/d/a.txt'', AddFile ''/d/b.txt'', ResetAll, AddFile ''/d/a.txt'']))
         = length (paths (run ?io ?fs init [AddFile ''/d/a.txt'', AddFile ''/d/b.txt'', ResetAll, AddFile ''/d/a.txt'']))"
    by blast
  from a p b q r show ?thesis
    by blast
qed


subsection \<open>The team name and the output files\<close>

lemma split_on_nonempty: "split_on sep s \<noteq> []"
  by (induction s) (auto split: list.splits)

lemma hd_split_on: "hd (split_on sep s) = takeWhile (\<lambda>c. c \<noteq> sep) s"
  by (induction s) (auto simp: split_on_nonempty split: list.splits)

lemma str_replace_absent: "\<not> occurs tok s \<Longrightarrow> str_replace tok new s = s"
  by (induction s) auto

lemma str_replace_prefix:
  assumes "tok \<noteq> []"
  shows "str_replace tok new (tok @ rest) = new @ str_replace tok new rest"
proof -
  obtain c cs where tok: "tok = c # cs"
    using assms by (cases tok) auto
  show ?thesis
    by (simp add: tok startswith_def)
qed

lemma team_name_add_file:
  "team_name (snd (add_file io fs dm path)) =
     (if accepted io fs path \<and> team_name dm = [] then extract_team_name path else team_name dm)"
  by (simp add: add_file_cases accepted_def split: sum.splits)

lemma team_name_run_adds:
  "team_name (run io fs dm (map AddFile ps)) =
     (if team_name dm \<noteq> [] then team_name dm
      else (case filter (\<lambda>n. n \<noteq> []) (map extract_team_name (filter (accepted io fs) ps)) of
              [] \<Rightarrow> []
            | n # ns \<Rightarrow> n))"
  unfolding run_def
proof (induction ps arbitrary: dm)
  case Nil
  then show ?case by simp
next
  case (Cons p ps)
  show ?case
    by (simp add: Cons.IH team_name_add_file)
qed

lemma extract_team_name_prefixed:
  assumes "basename path = ''SCRIPT_1_'' @ name @ CHR ''.'' # ext"
    and "CHR ''.'' \<notin> set name" and "\<not> occurs ''SCRIPT_1_'' (name @ CHR ''.'' # ext)"
  shows "extract_team_name path = name"
proof -
  have s: "startswith (basename path) ''SCRIPT_1_''"
    by (simp add: assms(1) startswith_def)
  have "str_replace ''SCRIPT_1_'' [] (basename path) = name @ CHR ''.'' # ext"
    unfolding assms(1)
    using str_replace_prefix [of "''SCRIPT_1_''" "[]" "name @ CHR ''.'' # ext"]
      str_replace_absent [OF assms(3), of "[]"]
    by simp
  then show ?thesis
    using s assms(2) by (auto simp: extract_team_name_def hd_split_on takeWhile_tail)
qed

lemma save_writes_xlsx:
  assumes "folder \<in> dirs fs" and "merge_all (dfs dm) = Inr merged"
  shows "save io fs dm folder date_str =
     (Some ToJsonTypeError, fs\<lparr>files := (files fs)
         (path_join folder (''Data_'' @ team_name dm @ ''_'' @ date_str) @ ''.xlsx''
            \<mapsto> to_excel io merged)\<rparr>)"
  using assms by (simp add: save_def Let_def)

lemma path_join_data:
  "folder \<noteq> [] \<Longrightarrow> last folder \<noteq> CHR ''/'' \<Longrightarrow>
   path_join folder (''Data_'' @ x) = folder @ ''/Data_'' @ x"
  by (simp add: path_join_def startswith_def)

text \<open>
  C9 (as the code has it). The team name is set by an accepted file only while it is
  still empty. So after a run of \<open>add_file\<close> calls on a fresh registry it is the name
  extracted from the first accepted file whose extracted name is not empty, and once it is
  not empty no later \<open>add_file\<close> changes it. The extracted name: for a base name
  \<open>SCRIPT_1_<name>.<ext>\<close> it is \<open><name>\<close> (no dot in the name, no further \<open>SCRIPT_1_\<close>);
  for a base name that does not start with \<open>SCRIPT_1_\<close> it is the stem. When the folder
  exists and the merge succeeds, \<open>save\<close> writes the spreadsheet under the name
  \<open>Data_<team name>_<date>.xlsx\<close> in the folder. Nothing is stated here about the other
  two files.
\<close>

theorem team_name_and_output_names:
  "team_name (run io fs init (map AddFile ps)) =
     (case filter (\<lambda>n. n \<noteq> []) (map extract_team_name (filter (accepted io fs) ps)) of
        [] \<Rightarrow> []
      | n # ns \<Rightarrow> n) \<and>
   (team_name dm \<noteq> [] \<longrightarrow> team_name (snd (add_file io fs dm path)) = team_name dm) \<and>
   (basename path = ''SCRIPT_1_'' @ name @ CHR ''.'' # ext \<and> CHR ''.'' \<notin> set name \<and>
      \<not> occurs ''SCRIPT_1_'' (name @ CHR ''.'' # ext) \<longrightarrow> extract_team_name path = name) \<and>
   (\<not> startswith (basename path) ''SCRIPT_1_'' \<longrightarrow>
      extract_team_name path = fst (splitext (basename path))) \<and>
   (folder \<in> dirs fs \<and> merge_all (dfs dm) = Inr merged \<longrightarrow>
      files (snd (save io fs dm folder date_str))
        (path_join folder (''Data_'' @ team_name dm @ ''_'' @ date_str) @ ''.xlsx'')
        = Some (to_excel io merged)) \<and>
   (folder \<noteq> [] \<and> last folder \<noteq> CHR ''/'' \<longrightarrow>
      path_join folder (''Data_'' @ team_name dm @ ''_'' @ date_str)
        = folder @ ''/Data_'' @ team_name dm @ ''_'' @ date_str)"
proof (intro conjI impI)
  show "team_name (run io fs init (map AddFile ps)) =
     (case filter (\<lambda>n. n \<noteq> []) (map extract_team_name (filter (accepted io fs) ps)) of
        [] \<Rightarrow> []
      | n # ns \<Rightarrow> n)"
    by (simp add: team_name_run_adds init_def)
next
  assume "team_name dm \<noteq> []"
  then show "team_name (snd (add_file io fs dm path)) = team_name dm"
    by (simp add: team_name_add_file)
next
  assume "basename path = ''SCRIPT_1_'' @ name @ CHR ''.'' # ext \<and> CHR ''.'' \<notin> set name \<and>
      \<not> occurs ''SCRIPT_1_'' (name @ CHR ''.'' # ext)"
  then show "extract_team_name path = name"
    using extract_team_name_prefixed by blast
next
  assume "\<not> startswith (basename path) ''SCRIPT_1_''"
  then show "extract_team_name path = fst (splitext (basename path))"
    by (simp add: extract_team_name_def)
next
  assume a: "folder \<in> dirs fs \<and> merge_all (dfs dm) = Inr merged"
  then have s: "save io fs dm folder date_str =
     (Some ToJsonTypeError, fs\<lparr>files := (files fs)
         (path_join folder (''Data_'' @ team_name dm @ ''_'' @ date_str) @ ''.xlsx''
            \<mapsto> to_excel io merged)\<rparr>)"
    using save_writes_xlsx by blast
  show "files (snd (save io fs dm folder date_str))
        (path_join folder (''Data_'' @ team_name dm @ ''_'' @ date_str) @ ''.xlsx'')
        = Some (to_excel io merged)"
    by (simp add: s)
next
  assume "folder \<noteq> [] \<and> last folder \<noteq> CHR ''/''"
  then show "path_join folder (''Data_'' @ team_name dm @ ''_'' @ date_str)
        = folder @ ''/Data_'' @ team_name dm @ ''_'' @ date_str"
    using path_join_data by simp
qed

theorem team_name_and_output_names_witness:
  "team_name
     (run \<lparr>read_excel = (\<lambda>c. Inl ParserError), read_json = (\<lambda>c. Inl ParserError),
         read_csv = (\<lambda>c names. Inr \<lparr>columns = names, rows = [[Num 1, Str '' X'']]\<rparr>),
         to_excel = (\<lambda>t. [])\<rparr>
        \<lparr>files = [''/d/SCRIPT_1_Arsenal.txt'' \<mapsto> ''ID | Name\<newline>1 | X\<newline>'',
                  ''/d/b.txt'' \<mapsto> ''ID | Name\<newline>1 | X\<newline>''],
         dirs = {''/out''}\<rparr>
        init (map AddFile [''/d/SCRIPT_1_Arsenal.txt'', ''/d/b.txt''])) = ''Arsenal'' \<and>
   extract_team_name ''/d/SCRIPT_1_Arsenal.txt'' = ''Arsenal'' \<and>
   extract_team_name ''/d/b.txt'' = ''b'' \<and>
   files
     (snd (save \<lparr>read_excel = (\<lambda>c. Inl ParserError), read_json = (\<lambda>c. Inl ParserError),
         read_csv = (\<lambda>c names. Inr \<lparr>columns = names, rows = [[Num 1, Str '' X'']]\<rparr>),
         to_excel = (\<lambda>t. [])\<rparr>
        \<lparr>files = [''/d/SCRIPT_1_Arsenal.txt'' \<mapsto> ''ID | Name\<newline>1 | X\<newline>'',
                  ''/d/b.txt'' \<mapsto> ''ID | Name\<newline>1 | X\<newline>''],
         dirs = {''/out''}\<rparr>
        \<lparr>dfs = [\<lparr>columns = [''ID'', ''Name''], rows = [[Num 1, Str '' X'']]\<rparr>],
         paths = [''/d/SCRIPT_1_Arsenal.txt''], team_name = ''Arsenal''\<rparr>
        ''/out'' ''20250101''))
     ''/out/Data_Arsenal_20250101.xlsx'' = Some []"
proof -
  let ?io = "\<lparr>read_excel = (\<lambda>c. Inl ParserError), read_json = (\<lambda>c. Inl ParserError),
         read_csv = (\<lambda>c names. Inr \<lparr>columns = names, rows = [[Num 1, Str '' X'']]\<rparr>),
         to_excel = (\<lambda>t. [])\<rparr>"
  let ?fs = "\<lparr>files = [''/d/SCRIPT_1_Arsenal.txt'' \<mapsto> ''ID | Name\<newline>1 | X\<newline>'',
                  ''/d/b.txt'' \<mapsto> ''ID | Name\<newline>1 | X\<newline>''],
         dirs = {''/out''}\<rparr>"
  let ?T = "\<lparr>columns = [''ID'', ''Name''], rows = [[Num 1, Str '' X'']]\<rparr>"
  let ?dm = "\<lparr>dfs = [?T], paths = [''/d/SCRIPT_1_Arsenal.txt''], team_name = ''Arsenal''\<rparr>"
  note t = team_name_and_output_names [where io = ?io and fs = ?fs and dm = ?dm
      and folder = "''/out''" and merged = ?T and date_str = "''20250101''"]
  have acc1: "accepted ?io ?fs ''/d/SCRIPT_1_Arsenal.txt''"
    by code_simp
  have acc2: "accepted ?io ?fs ''/d/b.txt''"
    by code_simp
  have b1: "basename ''/d/SCRIPT_1_Arsenal.txt'' = ''SCRIPT_1_'' @ ''Arsenal'' @ CHR ''.'' # ''txt''"
    by (simp add: basename_def)
  have h1: "CHR ''.'' \<notin> set ''Arsenal''"
    by simp
  have h2: "\<not> occurs ''SCRIPT_1_'' (''Arsenal'' @ CHR ''.'' # ''txt'')"
    by (simp add: startswith_def)
  from t [where path = "''/d/SCRIPT_1_Arsenal.txt''" and name = "''Arsenal''" and ext = "''txt''"]
    b1 h1 h2
  have e1: "extract_team_name ''/d/SCRIPT_1_Arsenal.txt'' = ''Arsenal''"
    by blast
  have b2: "\<not> startswith (basename ''/d/b.txt'') ''SCRIPT_1_''"
    by (simp add: basename_def startswith_def)
  from t [where path = "''/d/b.txt''"] b2
  have "extract_team_name ''/d/b.txt'' = fst (splitext (basename ''/d/b.txt''))"
    by blast
  then have e2: "extract_team_name ''/d/b.txt'' = ''b''"
    by (simp add: basename_def splitext_def splitext_name_def)
  from t [where ps = "[''/d/SCRIPT_1_Arsenal.txt'', ''/d/b.txt'']"]
  have r: "team_name (run ?io ?fs init (map AddFile [''/d/SCRIPT_1_Arsenal.txt'', ''/d/b.txt''])) = ''Arsenal''"
    by (simp add: acc1 acc2 e1 e2)
  have f: "''/out'' \<in> dirs ?fs" and m: "merge_all (dfs ?dm) = Inr ?T"
    by (simp_all add: merge_all_def)
  have j: "path_join ''/out'' (''Data_'' @ team_name ?dm @ ''_'' @ ''20250101'') = ''/out/Data_Arsenal_20250101''"
    using t by simp
  from t f m
  have "files (snd (save ?io ?fs ?dm ''/out'' ''20250101''))
          (path_join ''/out'' (''Data_'' @ team_name ?dm @ ''_'' @ ''20250101'') @ ''.xlsx'')
        = Some (to_excel ?io ?T)"
    by blast
  then have d: "files (snd (save ?io ?fs ?dm ''/out'' ''20250101''))
                  ''/out/Data_Arsenal_20250101.xlsx'' = Some []"
    unfolding j by simp
  from r e1 e2 d show ?thesis
    by blast
qed

theorem team_name_and_output_names_counterexample:
  "fst (add_file \<lparr>read_excel = (\<lambda>c. Inl ParserError), read_json = (\<lambda>c. Inl ParserError),
         read_csv = (\<lambda>c names. Inr \<lparr>columns = names, rows = [[Num 1, Str '' X'']]\<rparr>),
         to_excel = (\<lambda>t. [])\<rparr>
        \<lparr>files = [''/d/SCRIPT_1_.txt'' \<mapsto> ''ID | Name\<newline>1 | X\<newline>'',
                  ''/d/b.txt'' \<mapsto> ''ID | Name\<newline>1 | X\<newline>''],
         dirs = {''/out''}\<rparr>
        init ''/d/SCRIPT_1_.txt'') = None \<and>
   team_name (snd (add_file \<lparr>read_excel = (\<lambda>c. Inl ParserError), read_json = (\<lambda>c. Inl ParserError),
         read_csv = (\<lambda>c names. Inr \<lparr>columns = names, rows = [[Num 1, Str '' X'']]\<rparr>),
         to_excel = (\<lambda>t. [])\<rparr>
        \<lparr>files = [''/d/SCRIPT_1_.txt'' \<mapsto> ''ID | Name\<newline>1 | X\<newline>'',
                  ''/d/b.txt'' \<mapsto> ''ID | Name\<newline>1 | X\<newline>''],
         dirs = {''/out''}\<rparr>
        init ''/d/SCRIPT_1_.txt'')) = [] \<and>
   team_name (run \<lparr>read_excel = (\<lambda>c. Inl ParserError), read_json = (\<lambda>c. Inl ParserError),
         read_csv = (\<lambda>c names. Inr \<lparr>columns = names, rows = [[Num 1, Str '' X'']]\<rparr>),
         to_excel = (\<lambda>t. [])\<rparr>
        \<lparr>files = [''/d/SCRIPT_1_.txt'' \<mapsto> ''ID | Name\<newline>1 | X\<newline>'',
                  ''/d/b.txt'' \<mapsto> ''ID | Name\<newline>1 | X\<newline>''],
         dirs = {''/out''}\<rparr>
        init [AddFile ''/d/SCRIPT_1_.txt'', AddFile ''/d/b.txt'']) = ''b'' \<and>
   extract_team_name ''/d/SCRIPT_1_a.b.txt'' = ''a'' \<and>
   fst (splitext ''a.b.txt'') = ''a.b''"
proof (intro conjI)
  let ?io = "\<lparr>read_excel = (\<lambda>c. Inl ParserError), read_json = (\<lambda>c. Inl ParserError),
         read_csv = (\<lambda>c names. Inr \<lparr>columns = names, rows = [[Num 1, Str '' X'']]\<rparr>),
         to_excel = (\<lambda>t. [])\<rparr>"
  let ?fs = "\<lparr>files = [''/d/SCRIPT_1_.txt'' \<mapsto> ''ID | Name\<newline>1 | X\<newline>'',
                  ''/d/b.txt'' \<mapsto> ''ID | Name\<newline>1 | X\<newline>''],
         dirs = {''/out''}\<rparr>"
  show "fst (add_file ?io ?fs init ''/d/SCRIPT_1_.txt'') = None"
    by code_simp
  show "team_name (snd (add_file ?io ?fs init ''/d/SCRIPT_1_.txt'')) = []"
    by code_simp
  show "team_name (run ?io ?fs init [AddFile ''/d/SCRIPT_1_.txt'', AddFile ''/d/b.txt'']) = ''b''"
    by code_simp
  show "extract_team_name ''/d/SCRIPT_1_a.b.txt'' = ''a''"
    by code_simp
  show "fst (splitext ''a.b.txt'') = ''a.b''"
    by code_simp
qed

subsection \<open>The loader's errors and the interrupted \<open>save\<close>\<close>

lemma read_unsupported:
  assumes "files fs path = Some content"
    and "lower (snd (splitext path)) \<notin> {''.xlsx'', ''.json'', ''.txt''}"
  shows "read io fs path = Inl (ReadError (UnsupportedFormat (lower (snd (splitext path)))))"
  using assms by (simp add: read_def read_body_def)

text \<open>
  C5 (what the code does). For an existing file \<open>players.csv\<close> the \<open>raise ValueError("Format
  ... not supported.")\<close> stands inside the \<open>try\<close> block, so the handler \<open>except Exception\<close>
  catches it and raises "Error reading file: ..." in its place: the caller gets the
  read error that wraps the format error, not the format error itself.
\<close>

theorem read_unsupported_format_wrapped:
  "read io \<lparr>files = [''/d/players.csv'' \<mapsto> ''ID|Name\<newline>1|X\<newline>''], dirs = {}\<rparr> ''/d/players.csv''
     = Inl (ReadError (UnsupportedFormat ''.csv'')) \<and>
   read io \<lparr>files = [''/d/players.csv'' \<mapsto> ''ID|Name\<newline>1|X\<newline>''], dirs = {}\<rparr> ''/d/players.csv''
     \<noteq> Inl (UnsupportedFormat ''.csv'')"
proof -
  let ?fs = "\<lparr>files = [''/d/players.csv'' \<mapsto> ''ID|Name\<newline>1|X\<newline>''], dirs = {}\<rparr>"
  have e: "lower (snd (splitext ''/d/players.csv'')) = ''.csv''"
    by (simp add: splitext_def splitext_name_def basename_def lower_def lower_char_def)
  have "read io ?fs ''/d/players.csv'' = Inl (ReadError (UnsupportedFormat ''.csv''))"
    using read_unsupported [of ?fs "''/d/players.csv''" _ io] by (simp add: e)
  then show ?thesis by simp
qed

text \<open>
  C3 (what the code does). For the merged table with the columns \<open>ID\<close>, \<open>Name\<close> and the
  row \<open>1\<close>, \<open>X\<close>, \<open>save\<close> into the existing folder \<open>/out\<close> writes the spreadsheet and then
  raises \<open>TypeError\<close> at \<open>to_json(..., encoding='utf-8')\<close>. The text file is not written,
  so reading it back fails with "File not found" and no table is reloaded.
\<close>

theorem save_stops_before_txt:
  "save io \<lparr>files = Map.empty, dirs = {''/out''}\<rparr>
     \<lparr>dfs = [\<lparr>columns = [''ID'', ''Name''], rows = [[Num 1, Str ''X'']]\<rparr>],
      paths = [''/d/SCRIPT_1_A.txt''], team_name = ''A''\<rparr> ''/out'' ''20250101''
     = (Some ToJsonTypeError,
        \<lparr>files = [''/out/Data_A_20250101.xlsx''
                    \<mapsto> to_excel io \<lparr>columns = [''ID'', ''Name''], rows = [[Num 1, Str ''X'']]\<rparr>],
         dirs = {''/out''}\<rparr>) \<and>
   read io
     (snd (save io \<lparr>files = Map.empty, dirs = {''/out''}\<rparr>
             \<lparr>dfs = [\<lparr>columns = [''ID'', ''Name''], rows = [[Num 1, Str ''X'']]\<rparr>],
              paths = [''/d/SCRIPT_1_A.txt''], team_name = ''A''\<rparr> ''/out'' ''20250101''))
     ''/out/Data_A_20250101.txt''
     = Inl (NotFound ''/out/Data_A_20250101.txt'')"
proof -
  let ?T = "\<lparr>columns = [''ID'', ''Name''], rows = [[Num 1, Str ''X'']]\<rparr>"
  let ?fs = "\<lparr>files = Map.empty, dirs = {''/out''}\<rparr>"
  let ?dm = "\<lparr>dfs = [?T], paths = [''/d/SCRIPT_1_A.txt''], team_name = ''A''\<rparr>"
  have s: "save io ?fs ?dm ''/out'' ''20250101''
           = (Some ToJsonTypeError,
              \<lparr>files = [''/out/Data_A_20250101.xlsx'' \<mapsto> to_excel io ?T], dirs = {''/out''}\<rparr>)"
    by (simp add: save_def merge_all_def path_join_def startswith_def)
  have "read io (snd (save io ?fs ?dm ''/out'' ''20250101'')) ''/out/Data_A_20250101.txt''
        = Inl (NotFound ''/out/Data_A_20250101.txt'')"
    unfolding s by (simp add: read_def)
  with s show ?thesis by simp
qed

end
